theory Spec2Isabelle
  imports Main
begin

section \<open>freecad-to-png.py: a shallow embedding\<close>

text \<open>
  The script parses its command line, checks that the input document exists, creates
  the output directory, imports the host application's bindings, opens the document
  with the standard streams optionally redirected, and saves a 1080 x 1080 image of the
  active view. The embedding follows \<^verbatim>\<open>parse_arguments\<close>, \<^verbatim>\<open>setup_freecad_paths\<close> and
  \<^verbatim>\<open>main\<close> statement by statement. What lies outside the script (the filesystem, the
  host application) is an explicit environment; what the script does to the world
  (prints, directory creation, host calls, rebinding of \<^verbatim>\<open>sys.stdout\<close> and
  \<^verbatim>\<open>sys.stderr\<close>) is explicit state.
\<close>

subsection \<open>Strings and the functions of \<^verbatim>\<open>os.path\<close> the script calls\<close>

text \<open>
  The script runs on a POSIX system (its default library paths are \<^verbatim>\<open>/usr/lib/...\<close>), so
  \<^verbatim>\<open>os.path\<close> is \<^verbatim>\<open>posixpath\<close>: the separator is the slash and the extension separator
  the dot. Both are ASCII, so working on bytes or on code points gives the same splits.
\<close>

definition sep :: char where
  "sep = CHR ''/''"

definition extsep :: char where
  "extsep = CHR ''.''"

text \<open>\<^verbatim>\<open>p.rfind(c)\<close>: the index of the last occurrence of \<open>c\<close>, or \<open>-1\<close>.\<close>

fun rfind :: "char \<Rightarrow> string \<Rightarrow> int" where
  "rfind c [] = - 1"
| "rfind c (x # xs) =
     (let r = rfind c xs in if 0 \<le> r then r + 1 else if x = c then 0 else - 1)"

text \<open>\<^verbatim>\<open>s.startswith(t)\<close> and \<^verbatim>\<open>s.endswith(t)\<close>.\<close>

definition startswith :: "string \<Rightarrow> string \<Rightarrow> bool" where
  "startswith s t = (take (length t) s = t)"

definition endswith :: "string \<Rightarrow> string \<Rightarrow> bool" where
  "endswith s t = (length t \<le> length s \<and> drop (length s - length t) s = t)"

text \<open>
  \<^verbatim>\<open>s.lower()\<close> on the ASCII letters, the only ones the suffix test of the script can
  see: no character outside ASCII has one of the letters of \<^verbatim>\<open>.fcstd\<close> as its lower case.
\<close>

definition lower_char :: "char \<Rightarrow> char" where
  "lower_char c =
     (case map_of (zip ''ABCDEFGHIJKLMNOPQRSTUVWXYZ'' ''abcdefghijklmnopqrstuvwxyz'') c of
        None \<Rightarrow> c
      | Some l \<Rightarrow> l)"

definition lower :: "string \<Rightarrow> string" where
  "lower s = map lower_char s"

text \<open>
  \<^verbatim>\<open>posixpath.basename\<close>:
  \<^verbatim>\<open>i = p.rfind(sep) + 1; return p[i:]\<close>
\<close>

definition basename :: "string \<Rightarrow> string" where
  "basename p = (let i = rfind sep p + 1 in drop (nat i) p)"

text \<open>
  \<^verbatim>\<open>posixpath.dirname\<close>:
  \<^verbatim>\<open>i = p.rfind(sep) + 1; head = p[:i]\<close>
  \<^verbatim>\<open>if head and head != sep*len(head): head = head.rstrip(sep)\<close>
\<close>

definition rstrip :: "char \<Rightarrow> string \<Rightarrow> string" where
  "rstrip c s = rev (dropWhile (\<lambda>x. x = c) (rev s))"

definition dirname :: "string \<Rightarrow> string" where
  "dirname p =
     (let i = rfind sep p + 1; head = take (nat i) p in
      if head \<noteq> [] \<and> head \<noteq> replicate (length head) sep then rstrip sep head else head)"

text \<open>
  \<^verbatim>\<open>genericpath._splitext\<close>, as \<^verbatim>\<open>posixpath.splitext\<close> calls it (no alternative
  separator). The loop skips the leading dots of the file name:
  \<^verbatim>\<open>while filenameIndex < dotIndex:\<close>
  \<^verbatim>\<open>    if p[filenameIndex:filenameIndex+1] != extsep: return p[:dotIndex], p[dotIndex:]\<close>
  \<^verbatim>\<open>    filenameIndex += 1\<close>
  \<open>skip_dots\<close> is that loop; it answers whether the loop returns the split.
\<close>

function skip_dots :: "string \<Rightarrow> nat \<Rightarrow> nat \<Rightarrow> bool" where
  "skip_dots p filenameIndex dotIndex =
     (if filenameIndex < dotIndex then
        (if take 1 (drop filenameIndex p) \<noteq> [extsep] then True
         else skip_dots p (filenameIndex + 1) dotIndex)
      else False)"
  by pat_completeness auto
termination
  by (relation "measure (\<lambda>(p, i, d). d - i)") auto

declare skip_dots.simps [simp del]

definition splitext :: "string \<Rightarrow> string \<times> string" where
  "splitext p =
     (let sepIndex = rfind sep p; dotIndex = rfind extsep p in
      if sepIndex < dotIndex \<and> skip_dots p (nat (sepIndex + 1)) (nat dotIndex)
      then (take (nat dotIndex) p, drop (nat dotIndex) p)
      else (p, []))"

text \<open>
  \<^verbatim>\<open>posixpath.join\<close> for two components:
  \<^verbatim>\<open>if b.startswith(sep) or not path: path = b\<close>
  \<^verbatim>\<open>elif path.endswith(sep): path += b\<close>
  \<^verbatim>\<open>else: path += sep + b\<close>
\<close>

definition join :: "string \<Rightarrow> string \<Rightarrow> string" where
  "join a b =
     (if startswith b [sep] \<or> a = [] then b
      else if endswith a [sep] then a @ b
      else a @ [sep] @ b)"

subsection \<open>The command line\<close>

text \<open>
  \<open>cmdline\<close> is what \<^verbatim>\<open>argparse\<close> has read: the positional argument, the three options
  that take a value (\<open>None\<close> when the option is absent) and the quiet flag.
\<close>

record cmdline =
  arg_input_file :: string
  opt_output :: "string option"
  opt_freecad_lib_path :: "string option"
  opt_freecad_mod_path :: "string option"
  flag_quiet :: bool

text \<open>
  The namespace \<^verbatim>\<open>parse_arguments\<close> returns. Its attribute \<^verbatim>\<open>output\<close> is the field
  \<open>output_path\<close> here.
\<close>

record args =
  input_file :: string
  output_path :: string
  freecad_lib_path :: string
  freecad_mod_path :: string
  quiet :: bool

definition DEFAULT_FREECAD_LIB_PATH :: string where
  "DEFAULT_FREECAD_LIB_PATH = ''/usr/lib/freecad-python3/lib''"

definition DEFAULT_FREECAD_MOD_PATH :: string where
  "DEFAULT_FREECAD_MOD_PATH = ''/usr/share/freecad/Mod''"

text \<open>
  \<^verbatim>\<open>parse_arguments\<close>: the defaults of the two path options, and the post-parsing step
  \<^verbatim>\<open>if args.output is None:\<close>
  \<^verbatim>\<open>    input_name = os.path.splitext(os.path.basename(args.input_file))[0]\<close>
  \<^verbatim>\<open>    args.output = os.path.join('production', f'{input_name}.png')\<close>
\<close>

definition parse_arguments :: "cmdline \<Rightarrow> args" where
  "parse_arguments c =
     \<lparr>input_file = arg_input_file c,
      output_path =
        (case opt_output c of
           None \<Rightarrow>
             (let input_name = fst (splitext (basename (arg_input_file c)))
              in join ''production'' (input_name @ ''.png''))
         | Some out \<Rightarrow> out),
      freecad_lib_path =
        (case opt_freecad_lib_path c of None \<Rightarrow> DEFAULT_FREECAD_LIB_PATH | Some l \<Rightarrow> l),
      freecad_mod_path =
        (case opt_freecad_mod_path c of None \<Rightarrow> DEFAULT_FREECAD_MOD_PATH | Some m \<Rightarrow> m),
      quiet = flag_quiet c\<rparr>"

subsection \<open>Exceptions\<close>

text \<open>
  The script has two handlers, \<^verbatim>\<open>except ImportError\<close> around the two imports and
  \<^verbatim>\<open>except Exception\<close> around the open / view / export sequence. An exception is
  modelled by the class test each handler makes and by its message \<^verbatim>\<open>str(e)\<close>:
  \<^item> \<open>ImportError\<close>: an instance of \<^verbatim>\<open>ImportError\<close> (and so of \<^verbatim>\<open>Exception\<close>);
  \<^item> \<open>OtherException\<close>: an instance of \<^verbatim>\<open>Exception\<close> that is no \<^verbatim>\<open>ImportError\<close>
    (\<^verbatim>\<open>OSError\<close>, \<^verbatim>\<open>RuntimeError\<close>, the host's own error classes);
  \<^item> \<open>NonException\<close>: an instance of \<^verbatim>\<open>BaseException\<close> outside \<^verbatim>\<open>Exception\<close>
    (\<^verbatim>\<open>KeyboardInterrupt\<close>, a \<^verbatim>\<open>SystemExit\<close> raised by the host, \<^verbatim>\<open>GeneratorExit\<close>).
\<close>

datatype py_exc = ImportError string | OtherException string | NonException string

fun is_ImportError :: "py_exc \<Rightarrow> bool" where
  "is_ImportError (ImportError m) = True"
| "is_ImportError (OtherException m) = False"
| "is_ImportError (NonException m) = False"

fun is_Exception :: "py_exc \<Rightarrow> bool" where
  "is_Exception (ImportError m) = True"
| "is_Exception (OtherException m) = True"
| "is_Exception (NonException m) = False"

text \<open>\<^verbatim>\<open>str(e)\<close>, as the f-strings of the two handlers format it.\<close>

fun str :: "py_exc \<Rightarrow> string" where
  "str (ImportError m) = m"
| "str (OtherException m) = m"
| "str (NonException m) = m"

text \<open>
  How \<^verbatim>\<open>main\<close> ends: in one of its own \<^verbatim>\<open>sys.exit(n)\<close> calls (none of them stands inside
  a \<^verbatim>\<open>try\<close> body, so nothing intercepts them), or with an exception that no handler of
  the script catches and that reaches the interpreter.
\<close>

datatype outcome = Exit int | Uncaught py_exc

subsection \<open>The world: streams, filesystem, host application\<close>

text \<open>
  The stream objects of a run: the two the process starts with, and the two
  \<^verbatim>\<open>io.StringIO()\<close> buffers the script creates in quiet mode.
\<close>

datatype stream = Real_stdout | Real_stderr | StringIO_stdout | StringIO_stderr

text \<open>The operations of the host application the script calls, with their arguments.\<close>

datatype api_call =
    Import_FreeCAD
  | Import_FreeCADGui
  | ShowMainWindow
  | OpenDocument string
  | ActiveView
  | FitAll
  | SaveImage string int int string

text \<open>
  What the script does, in order. Every event is logged together with the objects
  \<^verbatim>\<open>sys.stdout\<close> and \<^verbatim>\<open>sys.stderr\<close> are bound to at that moment.
  \<^item> \<open>Print f t\<close>: a \<^verbatim>\<open>print\<close> of the script wrote the text \<open>t\<close> to the stream object \<open>f\<close>;
  \<^item> \<open>Makedirs d\<close>: \<^verbatim>\<open>os.makedirs(d)\<close> was called;
  \<^item> \<open>Host c out err\<close>: the host operation \<open>c\<close> was called, and while it ran the host wrote
    \<open>out\<close> through \<^verbatim>\<open>sys.stdout\<close> and \<open>err\<close> through \<^verbatim>\<open>sys.stderr\<close>.
\<close>

datatype event = Print stream string | Makedirs string | Host api_call string string

type_synonym entry = "event \<times> stream \<times> stream"

text \<open>
  The filesystem: the paths for which \<^verbatim>\<open>os.path.exists\<close> answers true, and the images
  the host has saved, each with its width, height and background mode.
\<close>

record filesystem =
  paths :: "string set"
  images :: "string \<rightharpoonup> int \<times> int \<times> string"

record state =
  sys_stdout :: stream
  sys_stderr :: stream
  sys_path :: "string list"
  fs :: filesystem
  events :: "entry list"

text \<open>
  What a host operation does when it is called: the text it writes through the two
  Python-level streams, and the exception it raises, if any.
\<close>

record response =
  out_text :: string
  err_text :: string
  raised :: "py_exc option"

text \<open>
  The environment of a run: how the host answers each call (it may look at the call and
  at the filesystem), and whether \<^verbatim>\<open>os.makedirs\<close> fails (permissions, a file in the
  way): if it does, with which exception, and how many of the directories it had to
  create it did create before it failed.
\<close>

record env =
  host :: "api_call \<Rightarrow> filesystem \<Rightarrow> response"
  makedirs_error :: "string \<Rightarrow> filesystem \<Rightarrow> (py_exc \<times> nat) option"

subsection \<open>The statements of the script\<close>

definition log :: "event \<Rightarrow> state \<Rightarrow> state" where
  "log e s = s\<lparr>events := events s @ [(e, sys_stdout s, sys_stderr s)]\<rparr>"

text \<open>
  \<^verbatim>\<open>print(t, file=f)\<close>: the text and a newline go to the stream object \<open>f\<close>. Writing to
  a stream does not fail in this model.
\<close>

definition print_to :: "stream \<Rightarrow> string \<Rightarrow> state \<Rightarrow> state" where
  "print_to f t s = log (Print f (t @ [CHR 0x0A])) s"

text \<open>The argument of an f-string between single quotes.\<close>

definition quoted :: "string \<Rightarrow> string" where
  "quoted t = [CHR 0x27] @ t @ [CHR 0x27]"

definition path_exists :: "filesystem \<Rightarrow> string \<Rightarrow> bool" where
  "path_exists f p = (p \<in> paths f)"

text \<open>
  \<^verbatim>\<open>os.makedirs(d)\<close> creates the leaf directory and every intermediate one, the
  outermost first: afterwards \<open>d\<close> exists, and so does each prefix of \<open>d\<close> that ends
  before a separator. When it raises, the directories it created before the failure
  stay behind.
\<close>

definition leading_dirs :: "string \<Rightarrow> string list" where
  "leading_dirs d = map (\<lambda>i. take i d) (filter (\<lambda>i. d ! i = sep) [1..<length d]) @ [d]"

definition makedirs :: "env \<Rightarrow> string \<Rightarrow> state \<Rightarrow> py_exc option \<times> state" where
  "makedirs E d s =
     (let s1 = log (Makedirs d) s in
      case makedirs_error E d (fs s) of
        Some (e, n) \<Rightarrow>
          (Some e,
           s1\<lparr>fs := (fs s1)\<lparr>paths := paths (fs s1) \<union> set (take n (leading_dirs d))\<rparr>\<rparr>)
      | None \<Rightarrow> (None, s1\<lparr>fs := (fs s1)\<lparr>paths := paths (fs s1) \<union> set (leading_dirs d)\<rparr>\<rparr>))"

text \<open>
  Modelled from the spec: the host application is no part of the repository. Of its
  operations the spec says that they "open a document by path, obtain the active 3D
  view, fit all visible geometry into view, and save the current view as an image with
  given dimensions and background mode". So a \<^verbatim>\<open>saveImage\<close> that returns has written the
  image at the path it was given, with the width, height and background it was given;
  the other operations, and a call that raises, leave the filesystem alone.
\<close>

fun host_effect :: "api_call \<Rightarrow> filesystem \<Rightarrow> filesystem" where
  "host_effect (SaveImage p w h bg) f =
     f\<lparr>paths := insert p (paths f), images := (images f)(p \<mapsto> (w, h, bg))\<rparr>"
| "host_effect Import_FreeCAD f = f"
| "host_effect Import_FreeCADGui f = f"
| "host_effect ShowMainWindow f = f"
| "host_effect (OpenDocument p) f = f"
| "host_effect ActiveView f = f"
| "host_effect FitAll f = f"

text \<open>
  A call of a host operation (an \<^verbatim>\<open>import\<close> of a host module is one, too). The host
  writes through whatever \<^verbatim>\<open>sys.stdout\<close> and \<^verbatim>\<open>sys.stderr\<close> are bound to, which the log
  entry records; the host does not rebind them. The result is \<open>None\<close> when the call
  returns and \<open>Some e\<close> when it raises \<open>e\<close>.
\<close>

definition call_host :: "env \<Rightarrow> api_call \<Rightarrow> state \<Rightarrow> py_exc option \<times> state" where
  "call_host E c s =
     (let r = host E c (fs s);
          s1 = log (Host c (out_text r) (err_text r)) s in
      case raised r of
        Some e \<Rightarrow> (Some e, s1)
      | None \<Rightarrow> (None, s1\<lparr>fs := host_effect c (fs s1)\<rparr>))"

text \<open>A statement that cannot raise.\<close>

definition stmt :: "(state \<Rightarrow> state) \<Rightarrow> state \<Rightarrow> py_exc option \<times> state" where
  "stmt f s = (None, f s)"

text \<open>A block of statements: the first exception ends it.\<close>

fun run_steps :: "(state \<Rightarrow> py_exc option \<times> state) list \<Rightarrow> state \<Rightarrow> py_exc option \<times> state" where
  "run_steps [] s = (None, s)"
| "run_steps (step # steps) s =
     (case step s of
        (Some e, s') \<Rightarrow> (Some e, s')
      | (None, s') \<Rightarrow> run_steps steps s')"

text \<open>
  \<^verbatim>\<open>setup_freecad_paths\<close>:
  \<^verbatim>\<open>if lib_path and os.path.exists(lib_path): sys.path.append(lib_path)\<close>
  \<^verbatim>\<open>if mod_path and os.path.exists(mod_path): sys.path.append(mod_path)\<close>
\<close>

definition setup_freecad_paths :: "string \<Rightarrow> string \<Rightarrow> state \<Rightarrow> state" where
  "setup_freecad_paths lib_path mod_path s =
     (let s1 = (if lib_path \<noteq> [] \<and> path_exists (fs s) lib_path
                then s\<lparr>sys_path := sys_path s @ [lib_path]\<rparr> else s);
          s2 = (if mod_path \<noteq> [] \<and> path_exists (fs s1) mod_path
                then s1\<lparr>sys_path := sys_path s1 @ [mod_path]\<rparr> else s1)
      in s2)"

subsection \<open>\<^verbatim>\<open>main\<close>\<close>

text \<open>
  Lines 120 to 123: \<^verbatim>\<open>if args.quiet: sys.stdout = io.StringIO(); sys.stderr = io.StringIO()\<close>
\<close>

definition redirect :: "bool \<Rightarrow> state \<Rightarrow> state" where
  "redirect q s =
     (if q then s\<lparr>sys_stdout := StringIO_stdout, sys_stderr := StringIO_stderr\<rparr> else s)"

text \<open>
  Lines 132 and 133, and again 146 and 147:
  \<^verbatim>\<open>sys.stdout = origStdout; sys.stderr = origStderr\<close>
\<close>

definition restore :: "stream \<Rightarrow> stream \<Rightarrow> state \<Rightarrow> state" where
  "restore origStdout origStderr s = s\<lparr>sys_stdout := origStdout, sys_stderr := origStderr\<rparr>"

text \<open>
  The body of the second \<^verbatim>\<open>try\<close> (lines 119 to 142), after \<^verbatim>\<open>origStdout\<close> and
  \<^verbatim>\<open>origStderr\<close> have been read.
\<close>

definition try_body :: "env \<Rightarrow> args \<Rightarrow> stream \<Rightarrow> stream \<Rightarrow> state \<Rightarrow> py_exc option \<times> state" where
  "try_body E a origStdout origStderr =
     run_steps
       [stmt (redirect (quiet a)),
        call_host E ShowMainWindow,
        call_host E (OpenDocument (input_file a)),
        stmt (restore origStdout origStderr),
        call_host E ActiveView,
        call_host E FitAll,
        call_host E (SaveImage (output_path a) 1080 1080 ''Transparent''),
        stmt (\<lambda>s. print_to (sys_stdout s)
                (''Successfully saved screenshot to: '' @ output_path a) s)]"

text \<open>The two imports of lines 107 and 108.\<close>

definition import_modules :: "env \<Rightarrow> state \<Rightarrow> py_exc option \<times> state" where
  "import_modules E = run_steps [call_host E Import_FreeCAD, call_host E Import_FreeCADGui]"

text \<open>
  Lines 98 to 100:
  \<^verbatim>\<open>output_dir = os.path.dirname(args.output)\<close>
  \<^verbatim>\<open>if output_dir and not os.path.exists(output_dir): os.makedirs(output_dir)\<close>
\<close>

definition create_output_dir :: "env \<Rightarrow> args \<Rightarrow> state \<Rightarrow> py_exc option \<times> state" where
  "create_output_dir E a s =
     (let output_dir = dirname (output_path a) in
      if output_dir \<noteq> [] \<and> \<not> path_exists (fs s) output_dir then makedirs E output_dir s
      else (None, s))"

text \<open>Lines 94 and 95: the warning about the extension.\<close>

definition check_extension :: "args \<Rightarrow> state \<Rightarrow> state" where
  "check_extension a s =
     (if \<not> endswith (lower (input_file a)) ''.fcstd''
      then print_to (sys_stdout s)
             (''Warning: Input file '' @ quoted (input_file a)
                @ '' does not have .FCStd extension.'') s
      else s)"

text \<open>
  \<^verbatim>\<open>main\<close>, from the parsed command line. The call of \<^verbatim>\<open>setup_freecad_paths\<close> is
  commented out in the source (line 103), so it is absent here.
\<close>

definition main :: "env \<Rightarrow> cmdline \<Rightarrow> state \<Rightarrow> outcome \<times> state" where
  "main E c s =
     (let a = parse_arguments c in
      if \<not> path_exists (fs s) (input_file a) then
        (Exit 1,
         print_to (sys_stderr s)
           (''Error: Input file '' @ quoted (input_file a) @ '' does not exist.'') s)
      else
        case create_output_dir E a (check_extension a s) of
          (Some e, s1) \<Rightarrow> (Uncaught e, s1)
        | (None, s1) \<Rightarrow>
            (case import_modules E s1 of
               (Some e, s2) \<Rightarrow>
                 if is_ImportError e then
                   (Exit 1,
                    print_to (sys_stderr s2)
                      ''Please ensure FreeCAD is installed and paths are correct.''
                      (print_to (sys_stderr s2)
                         (''Error: Could not import FreeCAD modules: '' @ str e) s2))
                 else (Uncaught e, s2)
             | (None, s2) \<Rightarrow>
                 (let origStdout = sys_stdout s2; origStderr = sys_stderr s2 in
                  case try_body E a origStdout origStderr s2 of
                    (Some e, s3) \<Rightarrow>
                      if is_Exception e then
                        (let s4 = restore origStdout origStderr s3 in
                         (Exit 1,
                          print_to (sys_stderr s4) (''Error processing file: '' @ str e) s4))
                      else (Uncaught e, s3)
                  | (None, s3) \<Rightarrow> (Exit 0, s3))))"

text \<open>
  The interpreter around \<^verbatim>\<open>main\<close>: the process ends with the code given to
  \<^verbatim>\<open>sys.exit\<close>; an uncaught instance of \<^verbatim>\<open>Exception\<close> is reported through
  \<^verbatim>\<open>sys.stderr\<close> as a traceback (its frames are left out here) and the code is 1. For an
  uncaught exception outside \<^verbatim>\<open>Exception\<close> the script decides neither the code nor
  the report (\<^verbatim>\<open>SystemExit\<close> carries a code of its own, \<^verbatim>\<open>KeyboardInterrupt\<close> ends the
  process by a signal): the code is \<open>None\<close>.
\<close>

definition traceback :: "py_exc \<Rightarrow> string" where
  "traceback e = ''Traceback (most recent call last): '' @ str e"

definition run_script :: "env \<Rightarrow> cmdline \<Rightarrow> state \<Rightarrow> int option \<times> state" where
  "run_script E c s =
     (case main E c s of
        (Exit n, s') \<Rightarrow> (Some n, s')
      | (Uncaught e, s') \<Rightarrow>
          if is_Exception e then (Some 1, print_to (sys_stderr s') (traceback e) s')
          else (None, s'))"

text \<open>The state a process starts in, on a given filesystem.\<close>

definition initial_state :: "filesystem \<Rightarrow> state" where
  "initial_state f =
     \<lparr>sys_stdout = Real_stdout, sys_stderr = Real_stderr, sys_path = [], fs = f, events = []\<rparr>"

subsection \<open>Reading the log\<close>

text \<open>
  The host operations of the loading span (main window shown, document opened) and
  those that follow it (active view, fit, export).
\<close>

fun during_load :: "event \<Rightarrow> bool" where
  "during_load (Host ShowMainWindow out err) = True"
| "during_load (Host (OpenDocument p) out err) = True"
| "during_load ev = False"

fun after_load :: "event \<Rightarrow> bool" where
  "after_load (Host ActiveView out err) = True"
| "after_load (Host FitAll out err) = True"
| "after_load (Host (SaveImage p w h bg) out err) = True"
| "after_load ev = False"

text \<open>
  The text a log entry puts on a given stream object: a \<^verbatim>\<open>print\<close> writes to its
  \<^verbatim>\<open>file\<close> argument, the host writes through the streams that \<^verbatim>\<open>sys.stdout\<close> and
  \<^verbatim>\<open>sys.stderr\<close> were bound to during the call.
\<close>

fun written_to :: "stream \<Rightarrow> entry \<Rightarrow> string" where
  "written_to st (Print f t, out, err) = (if f = st then t else [])"
| "written_to st (Makedirs d, out, err) = []"
| "written_to st (Host c out_txt err_txt, out, err) =
     (if out = st then out_txt else []) @ (if err = st then err_txt else [])"

text \<open>
  The events \<^verbatim>\<open>main\<close> can log for the arguments \<open>a\<close>, and the streams an entry is logged
  with when \<^verbatim>\<open>main\<close> started with \<^verbatim>\<open>sys.stdout = o0\<close> and \<^verbatim>\<open>sys.stderr = e0\<close>.
\<close>

fun script_event :: "args \<Rightarrow> event \<Rightarrow> bool" where
  "script_event a (Print f t) = True"
| "script_event a (Makedirs d) = (d = dirname (output_path a) \<and> d \<noteq> [])"
| "script_event a (Host c out err) =
     (c \<in> {Import_FreeCAD, Import_FreeCADGui, ShowMainWindow, OpenDocument (input_file a),
            ActiveView, FitAll, SaveImage (output_path a) 1080 1080 ''Transparent''})"

definition entry_ok :: "args \<Rightarrow> stream \<Rightarrow> stream \<Rightarrow> entry \<Rightarrow> bool" where
  "entry_ok a o0 e0 ent =
     (script_event a (fst ent) \<and>
      snd ent = (if during_load (fst ent) \<and> quiet a then (StringIO_stdout, StringIO_stderr)
                 else (o0, e0)))"

text \<open>\<open>grows Q s s'\<close>: the log of \<open>s'\<close> is the log of \<open>s\<close> with entries appended that satisfy \<open>Q\<close>.\<close>

definition grows :: "(entry \<Rightarrow> bool) \<Rightarrow> state \<Rightarrow> state \<Rightarrow> bool" where
  "grows Q s s' = (\<exists>X. events s' = events s @ X \<and> list_all Q X)"

subsection \<open>Example runs\<close>

text \<open>
  Concrete inputs for evaluating the model: a filesystem that holds one document, a
  command line, a host whose operations all return, and a host that raises a given
  exception at a given operation.
\<close>

definition example_fs :: filesystem where
  "example_fs = \<lparr>paths = {''model.FCStd''}, images = Map.empty\<rparr>"

definition example_cmdline :: "string \<Rightarrow> string option \<Rightarrow> bool \<Rightarrow> cmdline" where
  "example_cmdline inp out q =
     \<lparr>arg_input_file = inp, opt_output = out, opt_freecad_lib_path = None,
      opt_freecad_mod_path = None, flag_quiet = q\<rparr>"

definition host_ok :: "api_call \<Rightarrow> filesystem \<Rightarrow> response" where
  "host_ok c f = \<lparr>out_text = ''message'', err_text = ''warning'', raised = None\<rparr>"

definition host_raising :: "api_call \<Rightarrow> py_exc \<Rightarrow> api_call \<Rightarrow> filesystem \<Rightarrow> response" where
  "host_raising bad e c f =
     (if c = bad then \<lparr>out_text = [], err_text = [], raised = Some e\<rparr> else host_ok c f)"

definition example_env :: "(api_call \<Rightarrow> filesystem \<Rightarrow> response) \<Rightarrow> env" where
  "example_env h = \<lparr>host = h, makedirs_error = (\<lambda>d f. None)\<rparr>"

section \<open>Properties\<close>

subsection \<open>Evaluating a run\<close>

text \<open>The defining equations that evaluate \<^verbatim>\<open>main\<close> and the path functions on an example.\<close>

lemmas run_defs =
  main_def run_script_def create_output_dir_def makedirs_def import_modules_def try_body_def
  call_host_def stmt_def redirect_def restore_def check_extension_def parse_arguments_def
  print_to_def log_def path_exists_def initial_state_def traceback_def Let_def
  example_fs_def example_cmdline_def example_env_def host_ok_def host_raising_def

lemmas path_defs =
  dirname_def basename_def splitext_def skip_dots.simps join_def startswith_def endswith_def
  rstrip_def lower_def lower_char_def leading_dirs_def quoted_def sep_def extsep_def

subsection \<open>Paths\<close>

lemma rfind_nonneg_iff: "0 \<le> rfind c p \<longleftrightarrow> c \<in> set p"
  by (induction p) (auto simp: Let_def)

lemma rfind_absent: "c \<notin> set p \<Longrightarrow> rfind c p = - 1"
  by (induction p) (auto simp: Let_def)

lemma rfind_last: "c \<notin> set e \<Longrightarrow> rfind c (h @ c # e) = int (length h)"
  by (induction h) (simp_all add: Let_def rfind_absent)

lemma rfind_drop: "c \<notin> set (drop (nat (rfind c p + 1)) p)"
proof (induction p)
  case Nil
  then show ?case by simp
next
  case (Cons x xs)
  show ?case
  proof (cases "0 \<le> rfind c xs")
    case True
    then have "nat (rfind c xs + 1 + 1) = Suc (nat (rfind c xs + 1))" by simp
    with True Cons show ?thesis by (simp add: Let_def)
  next
    case False
    then have "c \<notin> set xs" by (simp add: rfind_nonneg_iff)
    with False show ?thesis by (auto simp: Let_def)
  qed
qed

lemma basename_no_sep: "sep \<notin> set (basename p)"
  by (simp add: basename_def Let_def rfind_drop)

lemma basename_bare: "sep \<notin> set name \<Longrightarrow> basename name = name"
  by (simp add: basename_def rfind_absent)

lemma basename_after_sep:
  assumes "sep \<notin> set name"
  shows "basename (d @ sep # name) = name"
proof -
  have "nat (int (length d) + 1) = Suc (length d)" by simp
  with assms show ?thesis
    by (simp add: basename_def rfind_last)
qed

text \<open>The basename is what follows the last separator.\<close>

lemma basename_split:
  assumes "sep \<notin> set name" and "dir = [] \<or> last dir = sep"
  shows "basename (dir @ name) = name"
proof (cases "dir = []")
  case True
  with assms show ?thesis by (simp add: basename_bare)
next
  case False
  with assms have "dir = butlast dir @ [sep]"
    by (metis append_butlast_last_id)
  then have eq: "dir @ name = butlast dir @ sep # name"
    by (metis append.assoc append_Cons append_Nil)
  show ?thesis
    by (subst eq) (rule basename_after_sep [OF assms(1)])
qed

lemma dirname_bare: "sep \<notin> set p \<Longrightarrow> dirname p = []"
  by (simp add: dirname_def rfind_absent)

text \<open>The loop of \<^verbatim>\<open>_splitext\<close> finds a character that is no dot, or it does not.\<close>

lemma skip_dots_iff:
  "skip_dots p i d \<longleftrightarrow> (\<exists>k. i \<le> k \<and> k < d \<and> take 1 (drop k p) \<noteq> [extsep])"
proof (induction p i d rule: skip_dots.induct)
  case (1 p i d)
  show ?case
  proof (cases "i < d")
    case False
    then show ?thesis by (subst skip_dots.simps) auto
  next
    case True
    show ?thesis
    proof (cases "take 1 (drop i p) \<noteq> [extsep]")
      case t: True
      with True show ?thesis by (subst skip_dots.simps) auto
    next
      case f: False
      have "skip_dots p i d = skip_dots p (i + 1) d"
        using True f by (subst skip_dots.simps) simp
      also have "\<dots> \<longleftrightarrow> (\<exists>k. i + 1 \<le> k \<and> k < d \<and> take 1 (drop k p) \<noteq> [extsep])"
        using "1.IH" True f by simp
      also have "\<dots> \<longleftrightarrow> (\<exists>k. i \<le> k \<and> k < d \<and> take 1 (drop k p) \<noteq> [extsep])"
        using f by (metis Suc_eq_plus1 Suc_leD Suc_leI le_neq_implies_less)
      finally show ?thesis .
    qed
  qed
qed

lemma skip_dots_prefix:
  "skip_dots (h @ t) 0 (length h) \<longleftrightarrow> (\<exists>x \<in> set h. x \<noteq> extsep)"
proof -
  have key: "take 1 (drop k (h @ t)) = [h ! k]" if "k < length h" for k
  proof -
    from that have "drop k (h @ t) = (h ! k) # drop (Suc k) (h @ t)"
      by (metis Cons_nth_drop_Suc length_append nth_append trans_less_add1)
    then show ?thesis by simp
  qed
  show ?thesis
  proof
    assume "skip_dots (h @ t) 0 (length h)"
    then obtain k where k: "k < length h" and neq: "take 1 (drop k (h @ t)) \<noteq> [extsep]"
      unfolding skip_dots_iff by blast
    from neq have "[h ! k] \<noteq> [extsep]"
      unfolding key [OF k] .
    then have "h ! k \<noteq> extsep" by simp
    with k show "\<exists>x \<in> set h. x \<noteq> extsep"
      using nth_mem by blast
  next
    assume "\<exists>x \<in> set h. x \<noteq> extsep"
    then obtain k where k: "k < length h" and "h ! k \<noteq> extsep"
      by (auto simp: in_set_conv_nth)
    then have "[h ! k] \<noteq> [extsep]" by simp
    then have "take 1 (drop k (h @ t)) \<noteq> [extsep]"
      unfolding key [OF k] .
    with k show "skip_dots (h @ t) 0 (length h)"
      unfolding skip_dots_iff by blast
  qed
qed

text \<open>
  \<^verbatim>\<open>splitext\<close> on a file name: the extension starts at the last dot, unless only dots
  stand before that dot (or the name has no dot); then nothing is removed.
\<close>

lemma splitext_extension:
  assumes "sep \<notin> set name" and "name = stem @ extsep # ext" and "extsep \<notin> set ext"
    and "\<exists>x \<in> set stem. x \<noteq> extsep"
  shows "splitext name = (stem, extsep # ext)"
proof -
  have "rfind sep name = - 1" and "rfind extsep name = int (length stem)"
    using assms by (simp_all add: rfind_absent rfind_last)
  moreover have "skip_dots name 0 (length stem)"
    using assms(2,4) skip_dots_prefix [of stem "extsep # ext"] by simp
  ultimately show ?thesis
    using assms(2) by (simp add: splitext_def)
qed

lemma splitext_leading_dots:
  assumes "sep \<notin> set name" and "name = replicate n extsep @ rest" and "extsep \<notin> set rest"
  shows "splitext name = (name, [])"
proof (cases n)
  case 0
  with assms have "rfind extsep name = - 1" by (simp add: rfind_absent)
  moreover have "rfind sep name = - 1" using assms by (simp add: rfind_absent)
  ultimately show ?thesis by (simp add: splitext_def)
next
  case (Suc m)
  then have nm: "name = replicate m extsep @ extsep # rest"
    using assms(2) by (simp add: replicate_app_Cons_same)
  then have "rfind extsep name = int (length (replicate m extsep))"
    using assms(3) rfind_last [of extsep rest "replicate m extsep"] by simp
  moreover have "\<not> skip_dots name 0 (length (replicate m extsep))"
    using nm skip_dots_prefix [of "replicate m extsep" "extsep # rest"] by simp
  moreover have "rfind sep name = - 1"
    using assms by (simp add: rfind_absent)
  ultimately show ?thesis
    by (simp add: splitext_def Let_def)
qed

lemma splitext_append: "fst (splitext p) @ snd (splitext p) = p"
  by (simp add: splitext_def Let_def)

text \<open>Every path and every file name is of one of the shapes the lemmas above speak of.\<close>

lemma path_cases:
  "\<exists>dir name. p = dir @ name \<and> sep \<notin> set name \<and> (dir = [] \<or> last dir = sep)"
proof (cases "sep \<in> set p")
  case False
  then have "p = [] @ p \<and> sep \<notin> set p" by simp
  then show ?thesis by blast
next
  case True
  then obtain ys zs where "p = ys @ sep # zs" "sep \<notin> set zs"
    by (meson split_list_last)
  then have "p = (ys @ [sep]) @ zs \<and> sep \<notin> set zs \<and> last (ys @ [sep]) = sep"
    by simp
  then show ?thesis by blast
qed

lemma name_cases:
  "(\<exists>stem ext. name = stem @ extsep # ext \<and> extsep \<notin> set ext \<and> (\<exists>x \<in> set stem. x \<noteq> extsep))
   \<or> (\<exists>n rest. name = replicate n extsep @ rest \<and> extsep \<notin> set rest)"
proof (cases "extsep \<in> set name")
  case False
  then have "name = replicate 0 extsep @ name \<and> extsep \<notin> set name" by simp
  then show ?thesis by blast
next
  case True
  then obtain ys zs where s: "name = ys @ extsep # zs" "extsep \<notin> set zs"
    by (meson split_list_last)
  show ?thesis
  proof (cases "\<exists>x \<in> set ys. x \<noteq> extsep")
    case True
    with s show ?thesis by blast
  next
    case False
    then have "ys = replicate (length ys) extsep"
      by (simp add: replicate_length_same)
    with s have "name = replicate (Suc (length ys)) extsep @ zs"
      by (metis append_Cons append_Nil append.assoc replicate_append_same replicate_Suc)
    with s(2) show ?thesis by blast
  qed
qed

lemma join_production:
  assumes "sep \<notin> set x"
  shows "join ''production'' (x @ ''.png'') = ''production/'' @ x @ ''.png''"
proof -
  have "\<not> startswith (x @ ''.png'') [sep]"
    using assms by (cases x) (auto simp: startswith_def sep_def)
  then show ?thesis
    by (simp add: join_def endswith_def sep_def)
qed

text \<open>
  C3. When \<^verbatim>\<open>-o/--output\<close> is omitted, the resolved output path is the join of the
  directory \<^verbatim>\<open>production\<close> with \<^verbatim>\<open><stem>.png\<close>, that is \<^verbatim>\<open>production/<stem>.png\<close>, where
  the stem is the basename of the input file with its final extension removed. The
  input path is written \<open>dir @ name\<close>, with \<open>name\<close> what follows the last separator:
  \<open>name\<close> is the basename. If \<open>name\<close> is \<open>stem\<close>, a dot and an extension without a dot,
  and \<open>stem\<close> has a character that is no dot, the stem is \<open>stem\<close>. If \<open>name\<close> has no
  dot, or only leading dots, nothing is removed and the stem is \<open>name\<close> (so
  \<^verbatim>\<open>.FCStd\<close> gives \<^verbatim>\<open>production/.FCStd.png\<close>). By \<open>path_cases\<close> and \<open>name_cases\<close> these
  shapes cover every input.
\<close>

theorem default_output_path:
  assumes "opt_output c = None"
    and "arg_input_file c = dir @ name"
    and "sep \<notin> set name"
    and "dir = [] \<or> last dir = sep"
  shows "basename (arg_input_file c) = name
       \<and> (name = stem @ extsep # ext \<and> extsep \<notin> set ext \<and> (\<exists>x \<in> set stem. x \<noteq> extsep)
            \<longrightarrow> output_path (parse_arguments c) = join ''production'' (stem @ ''.png'')
              \<and> join ''production'' (stem @ ''.png'') = ''production/'' @ stem @ ''.png'')
       \<and> (name = replicate n extsep @ rest \<and> extsep \<notin> set rest
            \<longrightarrow> output_path (parse_arguments c) = join ''production'' (name @ ''.png'')
              \<and> join ''production'' (name @ ''.png'') = ''production/'' @ name @ ''.png'')"
proof -
  have b: "basename (arg_input_file c) = name"
    using assms(2-4) by (simp add: basename_split)
  have out: "output_path (parse_arguments c)
               = join ''production'' (fst (splitext name) @ ''.png'')"
    using assms(1) b by (simp add: parse_arguments_def)
  have with_ext: "output_path (parse_arguments c) = join ''production'' (stem @ ''.png'')
              \<and> join ''production'' (stem @ ''.png'') = ''production/'' @ stem @ ''.png''"
    if h: "name = stem @ extsep # ext \<and> extsep \<notin> set ext \<and> (\<exists>x \<in> set stem. x \<noteq> extsep)"
  proof -
    from h have "splitext name = (stem, extsep # ext)"
      using splitext_extension [OF assms(3)] by blast
    moreover from h assms(3) have "sep \<notin> set stem"
      by auto
    ultimately show ?thesis
      using out by (simp add: join_production)
  qed
  have without_ext: "output_path (parse_arguments c) = join ''production'' (name @ ''.png'')
              \<and> join ''production'' (name @ ''.png'') = ''production/'' @ name @ ''.png''"
    if h: "name = replicate n extsep @ rest \<and> extsep \<notin> set rest"
  proof -
    from h have "splitext name = (name, [])"
      using splitext_leading_dots [OF assms(3)] by blast
    then show ?thesis
      using out assms(3) by (simp add: join_production)
  qed
  from b with_ext without_ext show ?thesis
    by blast
qed

text \<open>
  On \<^verbatim>\<open>parts/bracket.v2.FCStd\<close> only the last extension goes, on \<^verbatim>\<open>part.FCStd\<close> the
  extension goes, and on \<^verbatim>\<open>parts/.FCStd\<close> nothing goes.
\<close>

theorem default_output_path_witness:
  "output_path (parse_arguments (example_cmdline ''parts/bracket.v2.FCStd'' None False))
     = ''production/bracket.v2.png''
   \<and> output_path (parse_arguments (example_cmdline ''part.FCStd'' None False))
     = ''production/part.png''
   \<and> output_path (parse_arguments (example_cmdline ''parts/.FCStd'' None False))
     = ''production/.FCStd.png''"
  using
    default_output_path [of "example_cmdline ''parts/bracket.v2.FCStd'' None False"
      "''parts/''" "''bracket.v2.FCStd''" "''bracket.v2''" "''FCStd''" 0 "[]"]
    default_output_path [of "example_cmdline ''part.FCStd'' None False"
      "[]" "''part.FCStd''" "''part''" "''FCStd''" 0 "[]"]
    default_output_path [of "example_cmdline ''parts/.FCStd'' None False"
      "''parts/''" "''.FCStd''" "[]" "[]" 1 "''FCStd''"]
  by (simp add: example_cmdline_def sep_def extsep_def)

subsection \<open>The steps of \<^verbatim>\<open>main\<close>\<close>

lemma log_simps [simp]:
  "events (log e s) = events s @ [(e, sys_stdout s, sys_stderr s)]"
  "sys_stdout (log e s) = sys_stdout s"
  "sys_stderr (log e s) = sys_stderr s"
  "fs (log e s) = fs s"
  "sys_path (log e s) = sys_path s"
  by (simp_all add: log_def)

lemma print_to_simps [simp]:
  "events (print_to f t s) = events s @ [(Print f (t @ [CHR 0x0A]), sys_stdout s, sys_stderr s)]"
  "sys_stdout (print_to f t s) = sys_stdout s"
  "sys_stderr (print_to f t s) = sys_stderr s"
  "fs (print_to f t s) = fs s"
  "sys_path (print_to f t s) = sys_path s"
  by (simp_all add: print_to_def)

lemma call_host_result:
  assumes "call_host E c s = (r, s')"
  shows "r = raised (host E c (fs s))"
    and "sys_stdout s' = sys_stdout s"
    and "sys_stderr s' = sys_stderr s"
    and "sys_path s' = sys_path s"
    and "events s' = events s @ [(Host c (out_text (host E c (fs s))) (err_text (host E c (fs s))), sys_stdout s, sys_stderr s)]"
    and "fs s' = (if r = None then host_effect c (fs s) else fs s)"
  using assms by (auto simp: call_host_def Let_def split: option.splits)

lemma check_extension_simps [simp]:
  "sys_stdout (check_extension a s) = sys_stdout s"
  "sys_stderr (check_extension a s) = sys_stderr s"
  "fs (check_extension a s) = fs s"
  "sys_path (check_extension a s) = sys_path s"
  by (simp_all add: check_extension_def)

lemma create_output_dir_result:
  assumes "create_output_dir E a s = (r, s')"
  shows "sys_stdout s' = sys_stdout s"
    and "sys_stderr s' = sys_stderr s"
    and "sys_path s' = sys_path s"
    and "images (fs s') = images (fs s)"
  using assms
  by (auto simp: create_output_dir_def makedirs_def Let_def
      split: option.splits prod.splits if_splits)


lemma create_output_dir_events:
  assumes "create_output_dir E a s = (r, s')"
  shows "events s' = events s @
           (if dirname (output_path a) \<noteq> [] \<and> \<not> path_exists (fs s) (dirname (output_path a))
            then [(Makedirs (dirname (output_path a)), sys_stdout s, sys_stderr s)] else [])"
    and "r = (if dirname (output_path a) \<noteq> [] \<and> \<not> path_exists (fs s) (dirname (output_path a))
              then map_option fst (makedirs_error E (dirname (output_path a)) (fs s))
              else None)"
    and "r = None \<Longrightarrow> dirname (output_path a) \<noteq> [] \<Longrightarrow>
           \<not> path_exists (fs s) (dirname (output_path a)) \<Longrightarrow>
           set (leading_dirs (dirname (output_path a))) \<subseteq> paths (fs s')"
  using assms
  by (auto simp: create_output_dir_def makedirs_def Let_def
      split: option.splits prod.splits if_splits)

lemma import_modules_result:
  assumes "import_modules E s = (r, s')"
  shows "sys_stdout s' = sys_stdout s"
    and "sys_stderr s' = sys_stderr s"
    and "sys_path s' = sys_path s"
    and "fs s' = fs s"
  using assms
  by (auto simp: import_modules_def call_host_def Let_def split: option.splits if_splits prod.splits)

lemma import_modules_first:
  assumes "import_modules E s = (r, s')"
  shows "\<exists>rest. events s' = events s @
           (Host Import_FreeCAD (out_text (host E Import_FreeCAD (fs s)))
              (err_text (host E Import_FreeCAD (fs s))), sys_stdout s, sys_stderr s) # rest"
  using assms
  by (auto simp: import_modules_def call_host_def Let_def split: option.splits)

lemma parse_arguments_input [simp]: "input_file (parse_arguments c) = arg_input_file c"
  and parse_arguments_quiet [simp]: "quiet (parse_arguments c) = flag_quiet c"
  by (simp_all add: parse_arguments_def)

lemma try_body_success:
  assumes "try_body E a o0 e0 s = (None, s')"
  shows "fs s' = (fs s)\<lparr>paths := insert (output_path a) (paths (fs s)),
            images := (images (fs s))(output_path a \<mapsto> (1080, 1080, ''Transparent''))\<rparr>"
    and "\<exists>pre out err. events s' = pre @
           [(Host (SaveImage (output_path a) 1080 1080 ''Transparent'') out err, o0, e0),
            (Print o0 (''Successfully saved screenshot to: '' @ output_path a @ [CHR 0x0A]),
             o0, e0)]"
    and "sys_stdout s' = o0" and "sys_stderr s' = e0"
  using assms
  by (auto simp: try_body_def call_host_def stmt_def redirect_def restore_def Let_def
      split: option.splits)


lemma try_body_load:
  assumes "quiet a"
    and "raised (host E ShowMainWindow (fs s)) = None"
    and "raised (host E (OpenDocument (input_file a)) (fs s)) = None"
  shows "take 3 (drop (length (events s)) (events (snd (try_body E a o0 e0 s)))) =
           [(Host ShowMainWindow (out_text (host E ShowMainWindow (fs s)))
               (err_text (host E ShowMainWindow (fs s))), StringIO_stdout, StringIO_stderr),
            (Host (OpenDocument (input_file a))
               (out_text (host E (OpenDocument (input_file a)) (fs s)))
               (err_text (host E (OpenDocument (input_file a)) (fs s))),
             StringIO_stdout, StringIO_stderr),
            (Host ActiveView (out_text (host E ActiveView (fs s)))
               (err_text (host E ActiveView (fs s))), o0, e0)]"
  using assms
  by (auto simp: try_body_def call_host_def stmt_def redirect_def restore_def Let_def
      split: option.splits)

lemma try_body_paths:
  assumes "try_body E a o0 e0 s = (r, s')"
  shows "paths (fs s) \<subseteq> paths (fs s')"
  using assms
  by (auto simp: try_body_def call_host_def stmt_def redirect_def restore_def Let_def
      split: option.splits)

lemma try_body_sys_path:
  assumes "try_body E a o0 e0 s = (r, s')"
  shows "sys_path s' = sys_path s"
  using assms
  by (auto simp: try_body_def call_host_def stmt_def redirect_def restore_def Let_def
      split: option.splits)

subsection \<open>The log of a run\<close>

lemma grows_refl: "grows Q s s"
  by (simp add: grows_def)

lemma grows_trans: "grows Q s s1 \<Longrightarrow> grows Q s1 s2 \<Longrightarrow> grows Q s s2"
  by (auto simp: grows_def)

lemma check_extension_grows:
  "grows (entry_ok a (sys_stdout s) (sys_stderr s)) s (check_extension a s)"
  by (simp add: grows_def check_extension_def entry_ok_def)

lemma create_output_dir_grows:
  assumes "create_output_dir E a s = (r, s')"
  shows "grows (entry_ok a (sys_stdout s) (sys_stderr s)) s s'"
  using assms
  by (auto simp: grows_def create_output_dir_def makedirs_def entry_ok_def Let_def
      split: option.splits prod.splits if_splits)

lemma import_modules_grows:
  assumes "import_modules E s = (r, s')"
  shows "grows (entry_ok a (sys_stdout s) (sys_stderr s)) s s'"
  using assms
  by (auto simp: grows_def import_modules_def call_host_def entry_ok_def Let_def
      split: option.splits)

lemma try_body_grows:
  assumes "try_body E a (sys_stdout s) (sys_stderr s) s = (r, s')"
  shows "grows (entry_ok a (sys_stdout s) (sys_stderr s)) s s'"
  using assms
  by (auto simp: grows_def try_body_def call_host_def stmt_def redirect_def restore_def
      entry_ok_def Let_def split: option.splits)

lemma grows_print:
  assumes "grows (entry_ok a o0 e0) s s1" and "sys_stdout s1 = o0" and "sys_stderr s1 = e0"
  shows "grows (entry_ok a o0 e0) s (print_to f t s1)"
  using assms by (auto simp: grows_def entry_ok_def)

text \<open>
  Every entry \<^verbatim>\<open>main\<close> logs is one of its own events, logged with the streams the
  process started with, except for the two host calls of the loading span in quiet mode.
\<close>

lemma main_grows:
  "grows (entry_ok (parse_arguments c) (sys_stdout s) (sys_stderr s)) s (snd (main E c s))"
proof -
  let ?a = "parse_arguments c"
  let ?Q = "entry_ok ?a (sys_stdout s) (sys_stderr s)"
  show ?thesis
  proof (cases "path_exists (fs s) (arg_input_file c)")
    case False
    then show ?thesis
      by (simp add: main_def grows_print grows_refl)
  next
    case True
    obtain r1 s1 where c1: "create_output_dir E ?a (check_extension ?a s) = (r1, s1)"
      by (cases "create_output_dir E ?a (check_extension ?a s)")
    have g1: "grows ?Q s s1"
      using check_extension_grows [of ?a s] create_output_dir_grows [OF c1, of ]
      by (auto intro: grows_trans)
    have st1: "sys_stdout s1 = sys_stdout s" "sys_stderr s1 = sys_stderr s"
      using create_output_dir_result [OF c1] by simp_all
    show ?thesis
    proof (cases r1)
      case (Some e)
      with True c1 g1 show ?thesis by (simp add: main_def)
    next
      case None
      obtain r2 s2 where c2: "import_modules E s1 = (r2, s2)"
        by (cases "import_modules E s1")
      have g2: "grows ?Q s s2"
        using g1 import_modules_grows [OF c2, of ?a] st1 by (auto intro: grows_trans)
      have st2: "sys_stdout s2 = sys_stdout s" "sys_stderr s2 = sys_stderr s"
        using import_modules_result [OF c2] st1 by simp_all
      show ?thesis
      proof (cases r2)
        case (Some e)
        with True c1 c2 None g2 st2 show ?thesis
          by (simp add: main_def grows_print)
      next
        case r2: None
        obtain r3 s3 where c3: "try_body E ?a (sys_stdout s2) (sys_stderr s2) s2 = (r3, s3)"
          by (cases "try_body E ?a (sys_stdout s2) (sys_stderr s2) s2")
        have g3: "grows ?Q s s3"
          using g2 try_body_grows [OF c3] st2 by (auto intro: grows_trans)
        have g3': "grows ?Q s (restore (sys_stdout s) (sys_stderr s) s3)"
          using g3 by (simp add: grows_def restore_def)
        show ?thesis
          using True c1 c2 c3 None r2 g3 g3' st2
          by (cases r3) (simp_all add: main_def grows_print restore_def Let_def)
      qed
    qed
  qed
qed

lemma written_to_StringIO:
  assumes "snd ent = (StringIO_stdout, StringIO_stderr)" and "during_load (fst ent)"
  shows "written_to Real_stdout ent = [] \<and> written_to Real_stderr ent = []"
  using assms by (cases ent; cases "fst ent") auto

subsection \<open>The ways \<^verbatim>\<open>main\<close> ends\<close>


lemma main_sys_path: "sys_path (snd (main E c s)) = sys_path s"
proof (cases "path_exists (fs s) (arg_input_file c)")
  case False
  then show ?thesis by (simp add: main_def)
next
  case True
  let ?a = "parse_arguments c"
  obtain r1 s1 where c1: "create_output_dir E ?a (check_extension ?a s) = (r1, s1)"
    by (cases "create_output_dir E ?a (check_extension ?a s)")
  obtain r2 s2 where c2: "import_modules E s1 = (r2, s2)"
    by (cases "import_modules E s1")
  obtain r3 s3 where c3: "try_body E ?a (sys_stdout s2) (sys_stderr s2) s2 = (r3, s3)"
    by (cases "try_body E ?a (sys_stdout s2) (sys_stderr s2) s2")
  have "sys_path s1 = sys_path s" "sys_path s2 = sys_path s1" "sys_path s3 = sys_path s2"
    using create_output_dir_result(3) [OF c1] import_modules_result(3) [OF c2]
      try_body_sys_path [OF c3] by simp_all
  with True c1 c2 c3 show ?thesis
    by (cases r1; cases r2; cases r3) (simp_all add: main_def Let_def restore_def)
qed

lemma main_after_dir:
  assumes "path_exists (fs s) (arg_input_file c)"
    and "create_output_dir E (parse_arguments c) (check_extension (parse_arguments c) s) = (r1, s1)"
  shows "\<exists>post. events (snd (main E c s)) = events s1 @ post \<and>
           (r1 \<noteq> None \<longrightarrow> post = [] \<and> fst (main E c s) = Uncaught (the r1)) \<and>
           (r1 = None \<longrightarrow> (\<exists>rest. post =
              (Host Import_FreeCAD (out_text (host E Import_FreeCAD (fs s1)))
                 (err_text (host E Import_FreeCAD (fs s1))), sys_stdout s, sys_stderr s) # rest)) \<and>
           paths (fs s1) \<subseteq> paths (fs (snd (main E c s)))"
proof -
  let ?a = "parse_arguments c"
  obtain r2 s2 where c2: "import_modules E s1 = (r2, s2)"
    by (cases "import_modules E s1")
  obtain r3 s3 where c3: "try_body E ?a (sys_stdout s2) (sys_stderr s2) s2 = (r3, s3)"
    by (cases "try_body E ?a (sys_stdout s2) (sys_stderr s2) s2")
  have st1: "sys_stdout s1 = sys_stdout s" "sys_stderr s1 = sys_stderr s"
    using create_output_dir_result [OF assms(2)] by simp_all
  obtain rest where e2: "events s2 = events s1 @
      (Host Import_FreeCAD (out_text (host E Import_FreeCAD (fs s1)))
         (err_text (host E Import_FreeCAD (fs s1))), sys_stdout s, sys_stderr s) # rest"
    using import_modules_first [OF c2] st1 by auto
  have f2: "fs s2 = fs s1"
    using import_modules_result [OF c2] by simp
  obtain X where e3: "events s3 = events s2 @ X"
    using try_body_grows [OF c3] by (auto simp: grows_def)
  have f3: "paths (fs s2) \<subseteq> paths (fs s3)"
    using try_body_paths [OF c3] .
  show ?thesis
    using assms c2 c3 e2 f2 e3 f3
    by (cases r1; cases r2; cases r3) (auto simp: main_def Let_def restore_def)
qed

text \<open>The directory step comes before every host operation.\<close>

lemma makedirs_precedes:
  assumes "path_exists (fs s) (arg_input_file c)"
    and "dirname (output_path (parse_arguments c)) \<noteq> []"
    and "\<not> path_exists (fs s) (dirname (output_path (parse_arguments c)))"
  shows "\<exists>pre post.
           events (snd (main E c s)) =
             events s @ pre @
               (Makedirs (dirname (output_path (parse_arguments c))), sys_stdout s, sys_stderr s)
                 # post
         \<and> (pre = [] \<or> (\<exists>t. pre = [(Print (sys_stdout s) t, sys_stdout s, sys_stderr s)]))
         \<and> (case makedirs_error E (dirname (output_path (parse_arguments c))) (fs s) of
               None \<Rightarrow>
                 set (leading_dirs (dirname (output_path (parse_arguments c))))
                   \<subseteq> paths (fs (snd (main E c s))) \<and>
                 path_exists (fs (snd (main E c s))) (dirname (output_path (parse_arguments c)))
             | Some (e, n) \<Rightarrow> post = [] \<and> fst (main E c s) = Uncaught e)"
proof -
  let ?a = "parse_arguments c"
  let ?d = "dirname (output_path ?a)"
  obtain r1 s1 where c1: "create_output_dir E ?a (check_extension ?a s) = (r1, s1)"
    by (cases "create_output_dir E ?a (check_extension ?a s)")
  define pre where "pre =
     (if \<not> endswith (lower (input_file ?a)) ''.fcstd''
      then [(Print (sys_stdout s)
               (''Warning: Input file '' @ quoted (input_file ?a)
                  @ '' does not have .FCStd extension.'' @ [CHR 0x0A]),
             sys_stdout s, sys_stderr s)]
      else [])"
  have pre: "events (check_extension ?a s) = events s @ pre"
    by (simp add: check_extension_def pre_def)
  have pre_kind: "pre = [] \<or> (\<exists>t. pre = [(Print (sys_stdout s) t, sys_stdout s, sys_stderr s)])"
    by (simp add: pre_def)
  have e1: "events s1 = events s @ pre @ [(Makedirs ?d, sys_stdout s, sys_stderr s)]"
    and r1: "r1 = map_option fst (makedirs_error E ?d (fs s))"
    using create_output_dir_events(1,2) [OF c1] assms(2,3) pre by simp_all
  have dirs: "r1 = None \<Longrightarrow> set (leading_dirs ?d) \<subseteq> paths (fs s1)"
    using create_output_dir_events(3) [OF c1] assms(2,3) by simp
  have mem: "?d \<in> set (leading_dirs ?d)"
    by (simp add: leading_dirs_def)
  obtain post where post: "events (snd (main E c s)) = events s1 @ post"
    and bad: "r1 \<noteq> None \<longrightarrow> post = [] \<and> fst (main E c s) = Uncaught (the r1)"
    and mono: "paths (fs s1) \<subseteq> paths (fs (snd (main E c s)))"
    using main_after_dir [OF assms(1) c1] by auto
  have "events (snd (main E c s)) = events s @ pre @ (Makedirs ?d, sys_stdout s, sys_stderr s) # post"
    using post e1 by simp
  moreover have "case makedirs_error E ?d (fs s) of
               None \<Rightarrow> set (leading_dirs ?d) \<subseteq> paths (fs (snd (main E c s))) \<and>
                 path_exists (fs (snd (main E c s))) ?d
             | Some (e, n) \<Rightarrow> post = [] \<and> fst (main E c s) = Uncaught e"
    using r1 bad dirs mono mem by (auto simp: path_exists_def split: option.splits)
  ultimately show ?thesis
    using pre_kind by blast
qed

text \<open>
  What \<^verbatim>\<open>setup_freecad_paths\<close> would do if \<^verbatim>\<open>main\<close> called it: a library path that
  exists is appended to \<^verbatim>\<open>sys.path\<close>.
\<close>

lemma setup_freecad_paths_appends:
  assumes "lib_path \<noteq> []" and "path_exists (fs s) lib_path"
  shows "sys_path (setup_freecad_paths lib_path mod_path s) \<noteq> sys_path s"
  using assms by (simp add: setup_freecad_paths_def Let_def)

subsection \<open>The claims about \<^verbatim>\<open>main\<close>\<close>

text \<open>
  C4. When the input path does not exist, whatever the other options are, the run
  consists of one event: the message \<^verbatim>\<open>Error: Input file '<path>' does not exist.\<close>,
  which names the path, is written to the standard error stream, and the process exits
  with code 1. No host operation is called and no module of the host is imported: the
  log gains no other entry, and the filesystem is as it was.
\<close>

theorem missing_input_file:
  assumes "\<not> path_exists (fs s) (arg_input_file c)"
  shows "main E c s =
           (Exit 1,
            s\<lparr>events := events s @
               [(Print (sys_stderr s)
                   (''Error: Input file '' @ quoted (arg_input_file c) @ '' does not exist.''
                      @ [CHR 0x0A]),
                 sys_stdout s, sys_stderr s)]\<rparr>)
       \<and> fst (run_script E c s) = Some 1"
  using assms by (simp add: main_def run_script_def print_to_def log_def)

theorem missing_input_file_witness:
  "\<not> path_exists (fs (initial_state example_fs)) ''gone.FCStd''
   \<and> main (example_env host_ok) (example_cmdline ''gone.FCStd'' None True)
         (initial_state example_fs)
     = (Exit 1,
        (initial_state example_fs)\<lparr>events :=
           [(Print Real_stderr
               (''Error: Input file '' @ quoted ''gone.FCStd'' @ '' does not exist.''
                  @ [CHR 0x0A]),
             Real_stdout, Real_stderr)]\<rparr>)"
  using missing_input_file [of "initial_state example_fs"
      "example_cmdline ''gone.FCStd'' None True" "example_env host_ok"]
  by (simp add: example_cmdline_def example_fs_def initial_state_def path_exists_def)

text \<open>
  C9. When the input file exists, the output directory step does not raise, and one of
  the two imports raises an \<^verbatim>\<open>ImportError\<close>, the two lines of the import error message
  are written to the standard error stream the process started with, and the process
  exits with code 1.
\<close>

theorem import_error_exit:
  assumes "path_exists (fs s) (arg_input_file c)"
    and "create_output_dir E (parse_arguments c) (check_extension (parse_arguments c) s) = (None, s1)"
    and "import_modules E s1 = (Some e, s2)"
    and "is_ImportError e"
  shows "main E c s =
           (Exit 1,
            s2\<lparr>events := events s2 @
               [(Print (sys_stderr s)
                   (''Error: Could not import FreeCAD modules: '' @ str e @ [CHR 0x0A]),
                 sys_stdout s, sys_stderr s),
                (Print (sys_stderr s)
                   (''Please ensure FreeCAD is installed and paths are correct.'' @ [CHR 0x0A]),
                 sys_stdout s, sys_stderr s)]\<rparr>)
       \<and> fst (run_script E c s) = Some 1"
proof -
  have s1: "sys_stdout s1 = sys_stdout s" "sys_stderr s1 = sys_stderr s"
    using create_output_dir_result [OF assms(2)] by simp_all
  have s2: "sys_stdout s2 = sys_stdout s" "sys_stderr s2 = sys_stderr s"
    using import_modules_result [OF assms(3)] s1 by simp_all
  show ?thesis
    using assms s2 by (simp add: main_def run_script_def print_to_def log_def)
qed

theorem import_error_exit_witness:
  "path_exists (fs (initial_state example_fs)) ''model.FCStd''
   \<and> is_ImportError (ImportError ''No module named FreeCAD'')
   \<and> main (example_env (host_raising Import_FreeCAD (ImportError ''No module named FreeCAD'')))
         (example_cmdline ''model.FCStd'' (Some ''shot.png'') False) (initial_state example_fs)
     = (Exit 1,
        (initial_state example_fs)\<lparr>events :=
           [(Host Import_FreeCAD [] [], Real_stdout, Real_stderr),
            (Print Real_stderr
               (''Error: Could not import FreeCAD modules: No module named FreeCAD''
                  @ [CHR 0x0A]),
             Real_stdout, Real_stderr),
            (Print Real_stderr
               (''Please ensure FreeCAD is installed and paths are correct.'' @ [CHR 0x0A]),
             Real_stdout, Real_stderr)]\<rparr>)"
  using import_error_exit
    [of "initial_state example_fs" "example_cmdline ''model.FCStd'' (Some ''shot.png'') False"
      "example_env (host_raising Import_FreeCAD (ImportError ''No module named FreeCAD''))"
      "initial_state example_fs"
      "ImportError ''No module named FreeCAD''"
      "(initial_state example_fs)\<lparr>events :=
           [(Host Import_FreeCAD [] [], Real_stdout, Real_stderr)]\<rparr>"]
  by (simp add: run_defs path_defs)

text \<open>
  C1, as amended. When an exception that is an instance of \<^verbatim>\<open>Exception\<close> is raised
  during the open / view / export sequence inside the \<^verbatim>\<open>try\<close> block, then at the point
  the error message is printed \<^verbatim>\<open>sys.stdout\<close> and \<^verbatim>\<open>sys.stderr\<close> are the streams they
  were before the redirection, the message \<^verbatim>\<open>Error processing file: ...\<close> goes to that
  original standard error stream, and the process exits with code 1. The handler is
  \<^verbatim>\<open>except Exception\<close>: an exception outside \<^verbatim>\<open>Exception\<close> (a \<^verbatim>\<open>KeyboardInterrupt\<close>
  while the document loads) passes it by, as the run after this theorem shows.
\<close>

theorem exception_in_try_restores:
  assumes "path_exists (fs s) (arg_input_file c)"
    and "create_output_dir E (parse_arguments c) (check_extension (parse_arguments c) s) = (None, s1)"
    and "import_modules E s1 = (None, s2)"
    and "try_body E (parse_arguments c) (sys_stdout s2) (sys_stderr s2) s2 = (Some e, s3)"
    and "is_Exception e"
  shows "main E c s =
           (Exit 1,
            s3\<lparr>sys_stdout := sys_stdout s, sys_stderr := sys_stderr s,
               events := events s3 @
                 [(Print (sys_stderr s) (''Error processing file: '' @ str e @ [CHR 0x0A]),
                   sys_stdout s, sys_stderr s)]\<rparr>)
       \<and> fst (run_script E c s) = Some 1"
proof -
  have s1: "sys_stdout s1 = sys_stdout s" "sys_stderr s1 = sys_stderr s"
    using create_output_dir_result [OF assms(2)] by simp_all
  have s2: "sys_stdout s2 = sys_stdout s" "sys_stderr s2 = sys_stderr s"
    using import_modules_result [OF assms(3)] s1 by simp_all
  show ?thesis
    using assms s2 by (simp add: main_def run_script_def print_to_def log_def restore_def Let_def)
qed

theorem exception_in_try_restores_witness:
  "is_Exception (OtherException ''corrupt document'')
   \<and> fst (main (example_env (host_raising (OpenDocument ''model.FCStd'')
                     (OtherException ''corrupt document'')))
          (example_cmdline ''model.FCStd'' (Some ''shot.png'') True)
          (initial_state example_fs)) = Exit 1
   \<and> sys_stdout (snd (main (example_env (host_raising (OpenDocument ''model.FCStd'')
                     (OtherException ''corrupt document'')))
          (example_cmdline ''model.FCStd'' (Some ''shot.png'') True)
          (initial_state example_fs))) = Real_stdout
   \<and> sys_stderr (snd (main (example_env (host_raising (OpenDocument ''model.FCStd'')
                     (OtherException ''corrupt document'')))
          (example_cmdline ''model.FCStd'' (Some ''shot.png'') True)
          (initial_state example_fs))) = Real_stderr
   \<and> events (snd (main (example_env (host_raising (OpenDocument ''model.FCStd'')
                     (OtherException ''corrupt document'')))
          (example_cmdline ''model.FCStd'' (Some ''shot.png'') True)
          (initial_state example_fs))) =
        [(Host Import_FreeCAD ''message'' ''warning'', Real_stdout, Real_stderr),
         (Host Import_FreeCADGui ''message'' ''warning'', Real_stdout, Real_stderr),
         (Host ShowMainWindow ''message'' ''warning'', StringIO_stdout, StringIO_stderr),
         (Host (OpenDocument ''model.FCStd'') [] [], StringIO_stdout, StringIO_stderr),
         (Print Real_stderr (''Error processing file: corrupt document'' @ [CHR 0x0A]),
          Real_stdout, Real_stderr)]"
  using exception_in_try_restores
    [of "initial_state example_fs" "example_cmdline ''model.FCStd'' (Some ''shot.png'') True"
      "example_env (host_raising (OpenDocument ''model.FCStd'')
         (OtherException ''corrupt document''))"
      "initial_state example_fs"
      "(initial_state example_fs)\<lparr>events :=
         [(Host Import_FreeCAD ''message'' ''warning'', Real_stdout, Real_stderr),
          (Host Import_FreeCADGui ''message'' ''warning'', Real_stdout, Real_stderr)]\<rparr>"
      "OtherException ''corrupt document''"
      "(initial_state example_fs)\<lparr>sys_stdout := StringIO_stdout,
          sys_stderr := StringIO_stderr,
          events :=
         [(Host Import_FreeCAD ''message'' ''warning'', Real_stdout, Real_stderr),
          (Host Import_FreeCADGui ''message'' ''warning'', Real_stdout, Real_stderr),
          (Host ShowMainWindow ''message'' ''warning'', StringIO_stdout, StringIO_stderr),
          (Host (OpenDocument ''model.FCStd'') [] [], StringIO_stdout, StringIO_stderr)]\<rparr>"]
  by (simp add: run_defs path_defs)

text \<open>
  C1 as it was stated, for any exception, fails. In quiet mode the document open raises
  \<^verbatim>\<open>KeyboardInterrupt\<close> inside the \<^verbatim>\<open>try\<close> block: \<^verbatim>\<open>except Exception\<close> does not catch it,
  the script prints nothing, \<^verbatim>\<open>sys.stdout\<close> and \<^verbatim>\<open>sys.stderr\<close> are still the buffers when
  the exception reaches the interpreter, and the exit code is not the script's 1.
\<close>

theorem keyboard_interrupt_not_caught:
  "fst (try_body (example_env (host_raising (OpenDocument ''model.FCStd'')
                     (NonException ''KeyboardInterrupt'')))
          (parse_arguments (example_cmdline ''model.FCStd'' (Some ''shot.png'') True))
          Real_stdout Real_stderr
          ((initial_state example_fs)\<lparr>events :=
             [(Host Import_FreeCAD ''message'' ''warning'', Real_stdout, Real_stderr),
              (Host Import_FreeCADGui ''message'' ''warning'', Real_stdout, Real_stderr)]\<rparr>))
     = Some (NonException ''KeyboardInterrupt'')
   \<and> fst (main (example_env (host_raising (OpenDocument ''model.FCStd'')
                     (NonException ''KeyboardInterrupt'')))
          (example_cmdline ''model.FCStd'' (Some ''shot.png'') True)
          (initial_state example_fs)) = Uncaught (NonException ''KeyboardInterrupt'')
   \<and> fst (run_script (example_env (host_raising (OpenDocument ''model.FCStd'')
                     (NonException ''KeyboardInterrupt'')))
          (example_cmdline ''model.FCStd'' (Some ''shot.png'') True)
          (initial_state example_fs)) \<noteq> Some 1
   \<and> sys_stdout (snd (run_script (example_env (host_raising (OpenDocument ''model.FCStd'')
                     (NonException ''KeyboardInterrupt'')))
          (example_cmdline ''model.FCStd'' (Some ''shot.png'') True)
          (initial_state example_fs))) = StringIO_stdout
   \<and> sys_stderr (snd (run_script (example_env (host_raising (OpenDocument ''model.FCStd'')
                     (NonException ''KeyboardInterrupt'')))
          (example_cmdline ''model.FCStd'' (Some ''shot.png'') True)
          (initial_state example_fs))) = StringIO_stderr
   \<and> events (snd (run_script (example_env (host_raising (OpenDocument ''model.FCStd'')
                     (NonException ''KeyboardInterrupt'')))
          (example_cmdline ''model.FCStd'' (Some ''shot.png'') True)
          (initial_state example_fs))) =
        [(Host Import_FreeCAD ''message'' ''warning'', Real_stdout, Real_stderr),
         (Host Import_FreeCADGui ''message'' ''warning'', Real_stdout, Real_stderr),
         (Host ShowMainWindow ''message'' ''warning'', StringIO_stdout, StringIO_stderr),
         (Host (OpenDocument ''model.FCStd'') [] [], StringIO_stdout, StringIO_stderr)]"
  by (simp add: run_defs path_defs)

text \<open>
  C2. In quiet mode every host call of the loading span (main window shown, document
  opened) runs with \<^verbatim>\<open>sys.stdout\<close> and \<^verbatim>\<open>sys.stderr\<close> bound to the two buffers, so what
  the host writes through them during loading does not reach the real standard output
  or standard error; every host call after the loading span runs with the streams the
  process started with. When both calls of the loading span return, the three log
  entries of the \<^verbatim>\<open>try\<close> block are, in this order: main window shown (buffers), document
  opened (buffers), active view accessed (original streams): the streams are restored
  right after the document open returns and before the active view is accessed.
\<close>

theorem quiet_redirection:
  assumes "flag_quiet c"
  shows "(\<forall>ent \<in> set (drop (length (events s)) (events (snd (main E c s)))).
            (during_load (fst ent) \<longrightarrow>
               snd ent = (StringIO_stdout, StringIO_stderr) \<and>
               written_to Real_stdout ent = [] \<and> written_to Real_stderr ent = []) \<and>
            (after_load (fst ent) \<longrightarrow> snd ent = (sys_stdout s, sys_stderr s)))
       \<and> (path_exists (fs s) (arg_input_file c) \<and>
            create_output_dir E (parse_arguments c) (check_extension (parse_arguments c) s)
              = (None, s1) \<and>
            import_modules E s1 = (None, s2) \<and>
            raised (host E ShowMainWindow (fs s2)) = None \<and>
            raised (host E (OpenDocument (arg_input_file c)) (fs s2)) = None
          \<longrightarrow> take 3 (drop (length (events s2)) (events (snd (main E c s)))) =
                 [(Host ShowMainWindow (out_text (host E ShowMainWindow (fs s2)))
                     (err_text (host E ShowMainWindow (fs s2))),
                   StringIO_stdout, StringIO_stderr),
                  (Host (OpenDocument (arg_input_file c))
                     (out_text (host E (OpenDocument (arg_input_file c)) (fs s2)))
                     (err_text (host E (OpenDocument (arg_input_file c)) (fs s2))),
                   StringIO_stdout, StringIO_stderr),
                  (Host ActiveView (out_text (host E ActiveView (fs s2)))
                     (err_text (host E ActiveView (fs s2))),
                   sys_stdout s, sys_stderr s)])"
proof (intro conjI ballI impI)
  fix ent
  assume ent: "ent \<in> set (drop (length (events s)) (events (snd (main E c s))))"
  obtain X where X: "events (snd (main E c s)) = events s @ X"
    and ok: "list_all (entry_ok (parse_arguments c) (sys_stdout s) (sys_stderr s)) X"
    using main_grows [of c s E] by (auto simp: grows_def)
  from ent X have "ent \<in> set X" by simp
  with ok have e: "entry_ok (parse_arguments c) (sys_stdout s) (sys_stderr s) ent"
    by (simp add: list_all_iff)
  {
    assume d: "during_load (fst ent)"
    with e assms have sn: "snd ent = (StringIO_stdout, StringIO_stderr)"
      by (simp add: entry_ok_def)
    with d written_to_StringIO [of ent]
    show "snd ent = (StringIO_stdout, StringIO_stderr)"
      and "written_to Real_stdout ent = []" and "written_to Real_stderr ent = []"
      by simp_all
  }
  {
    assume a: "after_load (fst ent)"
    then have "\<not> during_load (fst ent)"
      by (cases "fst ent" rule: during_load.cases) auto
    with e show "snd ent = (sys_stdout s, sys_stderr s)"
      by (simp add: entry_ok_def)
  }
next
  assume h: "path_exists (fs s) (arg_input_file c) \<and>
            create_output_dir E (parse_arguments c) (check_extension (parse_arguments c) s)
              = (None, s1) \<and>
            import_modules E s1 = (None, s2) \<and>
            raised (host E ShowMainWindow (fs s2)) = None \<and>
            raised (host E (OpenDocument (arg_input_file c)) (fs s2)) = None"
  let ?a = "parse_arguments c"
  have st1: "sys_stdout s1 = sys_stdout s" "sys_stderr s1 = sys_stderr s"
    using h create_output_dir_result [of E ?a "check_extension ?a s" None s1] by simp_all
  have st2: "sys_stdout s2 = sys_stdout s" "sys_stderr s2 = sys_stderr s"
    using h import_modules_result [of E s1 None s2] st1 by simp_all
  obtain r3 s3 where c3: "try_body E ?a (sys_stdout s) (sys_stderr s) s2 = (r3, s3)"
    by (cases "try_body E ?a (sys_stdout s) (sys_stderr s) s2")
  have ld: "take 3 (drop (length (events s2)) (events s3)) =
           [(Host ShowMainWindow (out_text (host E ShowMainWindow (fs s2)))
               (err_text (host E ShowMainWindow (fs s2))), StringIO_stdout, StringIO_stderr),
            (Host (OpenDocument (input_file ?a))
               (out_text (host E (OpenDocument (input_file ?a)) (fs s2)))
               (err_text (host E (OpenDocument (input_file ?a)) (fs s2))),
             StringIO_stdout, StringIO_stderr),
            (Host ActiveView (out_text (host E ActiveView (fs s2)))
               (err_text (host E ActiveView (fs s2))), sys_stdout s, sys_stderr s)]"
    using try_body_load [of ?a E s2 "sys_stdout s" "sys_stderr s"] h assms c3 by simp
  obtain X where X: "events s3 = events s2 @ X"
    using try_body_grows [of E ?a s2 r3 s3] c3 st2 by (auto simp: grows_def)
  have "length (take 3 X) = 3"
    using ld X by simp
  then have len: "3 \<le> length X"
    by simp
  have "take 3 (drop (length (events s2)) (events (snd (main E c s)))) =
        take 3 (drop (length (events s2)) (events s3))"
    using h c3 st2 X len
    by (cases r3) (auto simp: main_def Let_def restore_def)
  with ld show "take 3 (drop (length (events s2)) (events (snd (main E c s)))) =
                 [(Host ShowMainWindow (out_text (host E ShowMainWindow (fs s2)))
                     (err_text (host E ShowMainWindow (fs s2))),
                   StringIO_stdout, StringIO_stderr),
                  (Host (OpenDocument (arg_input_file c))
                     (out_text (host E (OpenDocument (arg_input_file c)) (fs s2)))
                     (err_text (host E (OpenDocument (arg_input_file c)) (fs s2))),
                   StringIO_stdout, StringIO_stderr),
                  (Host ActiveView (out_text (host E ActiveView (fs s2)))
                     (err_text (host E ActiveView (fs s2))),
                   sys_stdout s, sys_stderr s)]"
    by simp
qed

theorem quiet_redirection_witness:
  "flag_quiet (example_cmdline ''model.FCStd'' (Some ''shot.png'') True)
   \<and> events (snd (main (example_env host_ok)
          (example_cmdline ''model.FCStd'' (Some ''shot.png'') True)
          (initial_state example_fs))) =
        [(Host Import_FreeCAD ''message'' ''warning'', Real_stdout, Real_stderr),
         (Host Import_FreeCADGui ''message'' ''warning'', Real_stdout, Real_stderr),
         (Host ShowMainWindow ''message'' ''warning'', StringIO_stdout, StringIO_stderr),
         (Host (OpenDocument ''model.FCStd'') ''message'' ''warning'',
          StringIO_stdout, StringIO_stderr),
         (Host ActiveView ''message'' ''warning'', Real_stdout, Real_stderr),
         (Host FitAll ''message'' ''warning'', Real_stdout, Real_stderr),
         (Host (SaveImage ''shot.png'' 1080 1080 ''Transparent'') ''message'' ''warning'',
          Real_stdout, Real_stderr),
         (Print Real_stdout (''Successfully saved screenshot to: shot.png'' @ [CHR 0x0A]),
          Real_stdout, Real_stderr)]
   \<and> take 3 (drop 2 (events (snd (main (example_env host_ok)
          (example_cmdline ''model.FCStd'' (Some ''shot.png'') True)
          (initial_state example_fs))))) =
        [(Host ShowMainWindow ''message'' ''warning'', StringIO_stdout, StringIO_stderr),
         (Host (OpenDocument ''model.FCStd'') ''message'' ''warning'',
          StringIO_stdout, StringIO_stderr),
         (Host ActiveView ''message'' ''warning'', Real_stdout, Real_stderr)]"
  using quiet_redirection
    [of "example_cmdline ''model.FCStd'' (Some ''shot.png'') True"
      "initial_state example_fs" "example_env host_ok"
      "initial_state example_fs"
      "(initial_state example_fs)\<lparr>events :=
         [(Host Import_FreeCAD ''message'' ''warning'', Real_stdout, Real_stderr),
          (Host Import_FreeCADGui ''message'' ''warning'', Real_stdout, Real_stderr)]\<rparr>"]
  by (simp add: run_defs path_defs)

text \<open>
  C5. When the input file exists and no exception is raised (the output directory step,
  the imports and the \<^verbatim>\<open>try\<close> block all complete), the process exits with code 0; the
  last host call is the save-image operation on the resolved output path with width
  1080, height 1080 and background \<^verbatim>\<open>Transparent\<close>, followed by the success message on
  standard output; and the image of those dimensions and that background exists at the
  resolved output path afterwards.
\<close>

theorem successful_run:
  assumes "path_exists (fs s) (arg_input_file c)"
    and "create_output_dir E (parse_arguments c) (check_extension (parse_arguments c) s) = (None, s1)"
    and "import_modules E s1 = (None, s2)"
    and "try_body E (parse_arguments c) (sys_stdout s2) (sys_stderr s2) s2 = (None, s3)"
  shows "main E c s = (Exit 0, s3)
       \<and> fst (run_script E c s) = Some 0
       \<and> (\<exists>pre out err. events s3 = pre @
             [(Host (SaveImage (output_path (parse_arguments c)) 1080 1080 ''Transparent'')
                 out err, sys_stdout s, sys_stderr s),
              (Print (sys_stdout s)
                 (''Successfully saved screenshot to: '' @ output_path (parse_arguments c)
                    @ [CHR 0x0A]),
               sys_stdout s, sys_stderr s)])
       \<and> images (fs s3) (output_path (parse_arguments c)) = Some (1080, 1080, ''Transparent'')
       \<and> path_exists (fs s3) (output_path (parse_arguments c))"
proof -
  have st1: "sys_stdout s1 = sys_stdout s" "sys_stderr s1 = sys_stderr s"
    using create_output_dir_result [OF assms(2)] by simp_all
  have st2: "sys_stdout s2 = sys_stdout s" "sys_stderr s2 = sys_stderr s"
    using import_modules_result [OF assms(3)] st1 by simp_all
  have m: "main E c s = (Exit 0, s3)"
    using assms by (simp add: main_def Let_def)
  then have r: "fst (run_script E c s) = Some 0"
    by (simp add: run_script_def)
  from try_body_success [OF assms(4)] st2 m r show ?thesis
    by (simp add: path_exists_def)
qed

theorem successful_run_witness:
  "path_exists (fs (initial_state example_fs)) ''model.FCStd''
   \<and> fst (run_script (example_env host_ok) (example_cmdline ''model.FCStd'' None False)
          (initial_state example_fs)) = Some 0
   \<and> images (fs (snd (main (example_env host_ok) (example_cmdline ''model.FCStd'' None False)
          (initial_state example_fs)))) ''production/model.png''
       = Some (1080, 1080, ''Transparent'')
   \<and> events (snd (main (example_env host_ok) (example_cmdline ''model.FCStd'' None False)
          (initial_state example_fs))) =
        [(Makedirs ''production'', Real_stdout, Real_stderr),
         (Host Import_FreeCAD ''message'' ''warning'', Real_stdout, Real_stderr),
         (Host Import_FreeCADGui ''message'' ''warning'', Real_stdout, Real_stderr),
         (Host ShowMainWindow ''message'' ''warning'', Real_stdout, Real_stderr),
         (Host (OpenDocument ''model.FCStd'') ''message'' ''warning'', Real_stdout, Real_stderr),
         (Host ActiveView ''message'' ''warning'', Real_stdout, Real_stderr),
         (Host FitAll ''message'' ''warning'', Real_stdout, Real_stderr),
         (Host (SaveImage ''production/model.png'' 1080 1080 ''Transparent'')
            ''message'' ''warning'', Real_stdout, Real_stderr),
         (Print Real_stdout
            (''Successfully saved screenshot to: production/model.png'' @ [CHR 0x0A]),
          Real_stdout, Real_stderr)]"
  using successful_run
    [of "initial_state example_fs" "example_cmdline ''model.FCStd'' None False"
      "example_env host_ok"
      "snd (create_output_dir (example_env host_ok)
              (parse_arguments (example_cmdline ''model.FCStd'' None False))
              (initial_state example_fs))"
      "snd (import_modules (example_env host_ok)
             (snd (create_output_dir (example_env host_ok)
              (parse_arguments (example_cmdline ''model.FCStd'' None False))
              (initial_state example_fs))))"
      "snd (main (example_env host_ok) (example_cmdline ''model.FCStd'' None False)
          (initial_state example_fs))"]
  by (simp add: run_defs path_defs)




text \<open>
  C7. Two command lines that differ only in \<^verbatim>\<open>--freecad-lib-path\<close> and
  \<^verbatim>\<open>--freecad-mod-path\<close> give the same run: the same way of ending, the same exit code,
  the same final state (filesystem, streams, and the log with every print, directory
  creation and host call in order). \<^verbatim>\<open>sys.path\<close> is never changed.
\<close>

theorem options_unused:
  assumes "arg_input_file c1 = arg_input_file c2"
    and "opt_output c1 = opt_output c2"
    and "flag_quiet c1 = flag_quiet c2"
  shows "main E c1 s = main E c2 s
       \<and> run_script E c1 s = run_script E c2 s
       \<and> sys_path (snd (main E c1 s)) = sys_path s"
proof -
  let ?a1 = "parse_arguments c1" and ?a2 = "parse_arguments c2"
  have out: "output_path ?a1 = output_path ?a2"
    using assms by (cases "opt_output c2") (simp_all add: parse_arguments_def)
  have inp: "input_file ?a1 = input_file ?a2" and q: "quiet ?a1 = quiet ?a2"
    using assms by simp_all
  have ce: "check_extension ?a1 = check_extension ?a2"
    using inp by (intro ext) (simp add: check_extension_def)
  have cd: "create_output_dir E ?a1 = create_output_dir E ?a2"
    using out by (intro ext) (simp add: create_output_dir_def)
  have tb: "try_body E ?a1 = try_body E ?a2"
    using inp out q by (intro ext) (simp add: try_body_def)
  have m: "main E c1 s = main E c2 s"
    unfolding main_def Let_def ce cd tb parse_arguments_input assms(1) by (rule refl)
  then have r: "run_script E c1 s = run_script E c2 s"
    by (simp add: run_script_def)
  have "sys_path (snd (main E c1 s)) = sys_path s"
    by (rule main_sys_path)
  with m r show ?thesis by simp
qed

theorem options_unused_witness:
  "arg_input_file (example_cmdline ''model.FCStd'' None True)
     = arg_input_file ((example_cmdline ''model.FCStd'' None True)
         \<lparr>opt_freecad_lib_path := Some ''/opt/freecad/lib'',
          opt_freecad_mod_path := Some ''/opt/freecad/Mod''\<rparr>)
   \<and> opt_output (example_cmdline ''model.FCStd'' None True)
     = opt_output ((example_cmdline ''model.FCStd'' None True)
         \<lparr>opt_freecad_lib_path := Some ''/opt/freecad/lib'',
          opt_freecad_mod_path := Some ''/opt/freecad/Mod''\<rparr>)
   \<and> flag_quiet (example_cmdline ''model.FCStd'' None True)
     = flag_quiet ((example_cmdline ''model.FCStd'' None True)
         \<lparr>opt_freecad_lib_path := Some ''/opt/freecad/lib'',
          opt_freecad_mod_path := Some ''/opt/freecad/Mod''\<rparr>)
   \<and> run_script (example_env host_ok) (example_cmdline ''model.FCStd'' None True)
         (initial_state example_fs)
     = run_script (example_env host_ok)
         ((example_cmdline ''model.FCStd'' None True)
            \<lparr>opt_freecad_lib_path := Some ''/opt/freecad/lib'',
             opt_freecad_mod_path := Some ''/opt/freecad/Mod''\<rparr>)
         (initial_state example_fs)"
  using options_unused
    [of "example_cmdline ''model.FCStd'' None True"
      "(example_cmdline ''model.FCStd'' None True)
         \<lparr>opt_freecad_lib_path := Some ''/opt/freecad/lib'',
          opt_freecad_mod_path := Some ''/opt/freecad/Mod''\<rparr>"
      "example_env host_ok" "initial_state example_fs"]
  by (simp add: example_cmdline_def initial_state_def)

text \<open>
  C8. Let the resolved output path have a directory component that does not exist. When
  the input file exists, \<^verbatim>\<open>os.makedirs\<close> is called on that directory before any host
  operation: the log of the run is at most the extension warning, then the directory
  creation, then everything else (the save-image call among it). If \<^verbatim>\<open>os.makedirs\<close>
  returns, the directory and the directories leading to it exist from then on; if it
  raises, the run ends there and no image is written. When the input file does not
  exist, the run ends with exit code 1 before this step: the filesystem is untouched
  and no image is written either.
\<close>

theorem output_dir_created_first:
  assumes "dirname (output_path (parse_arguments c)) \<noteq> []"
    and "\<not> path_exists (fs s) (dirname (output_path (parse_arguments c)))"
  shows "(path_exists (fs s) (arg_input_file c) \<longrightarrow>
            (\<exists>pre post.
               events (snd (main E c s)) =
                 events s @ pre @
                   (Makedirs (dirname (output_path (parse_arguments c))),
                    sys_stdout s, sys_stderr s) # post
             \<and> (pre = [] \<or> (\<exists>t. pre = [(Print (sys_stdout s) t, sys_stdout s, sys_stderr s)]))
             \<and> (case makedirs_error E (dirname (output_path (parse_arguments c))) (fs s) of
                   None \<Rightarrow>
                     set (leading_dirs (dirname (output_path (parse_arguments c))))
                       \<subseteq> paths (fs (snd (main E c s))) \<and>
                     path_exists (fs (snd (main E c s)))
                       (dirname (output_path (parse_arguments c)))
                 | Some (e, n) \<Rightarrow> post = [] \<and> fst (main E c s) = Uncaught e)))
       \<and> (\<not> path_exists (fs s) (arg_input_file c) \<longrightarrow>
            fst (main E c s) = Exit 1 \<and> fs (snd (main E c s)) = fs s)"
proof (intro conjI impI)
  assume "path_exists (fs s) (arg_input_file c)"
  from makedirs_precedes [OF this assms]
  show "\<exists>pre post.
               events (snd (main E c s)) =
                 events s @ pre @
                   (Makedirs (dirname (output_path (parse_arguments c))),
                    sys_stdout s, sys_stderr s) # post
             \<and> (pre = [] \<or> (\<exists>t. pre = [(Print (sys_stdout s) t, sys_stdout s, sys_stderr s)]))
             \<and> (case makedirs_error E (dirname (output_path (parse_arguments c))) (fs s) of
                   None \<Rightarrow>
                     set (leading_dirs (dirname (output_path (parse_arguments c))))
                       \<subseteq> paths (fs (snd (main E c s))) \<and>
                     path_exists (fs (snd (main E c s)))
                       (dirname (output_path (parse_arguments c)))
                 | Some (e, n) \<Rightarrow> post = [] \<and> fst (main E c s) = Uncaught e)" .
next
  assume "\<not> path_exists (fs s) (arg_input_file c)"
  then show "fst (main E c s) = Exit 1" and "fs (snd (main E c s)) = fs s"
    by (simp_all add: main_def)
qed

theorem output_dir_created_first_witness:
  "path_exists (fs (initial_state example_fs)) ''model.FCStd''
   \<and> dirname (output_path (parse_arguments
         (example_cmdline ''model.FCStd'' (Some ''renders/front/shot.png'') False)))
       = ''renders/front''
   \<and> \<not> path_exists (fs (initial_state example_fs)) ''renders/front''
   \<and> hd (events (snd (main (example_env host_ok)
         (example_cmdline ''model.FCStd'' (Some ''renders/front/shot.png'') False)
         (initial_state example_fs))))
       = (Makedirs ''renders/front'', Real_stdout, Real_stderr)
   \<and> path_exists (fs (snd (main (example_env host_ok)
         (example_cmdline ''model.FCStd'' (Some ''renders/front/shot.png'') False)
         (initial_state example_fs)))) ''renders/front''
   \<and> path_exists (fs (snd (main (example_env host_ok)
         (example_cmdline ''model.FCStd'' (Some ''renders/front/shot.png'') False)
         (initial_state example_fs)))) ''renders''
   \<and> \<not> path_exists (fs (initial_state example_fs)) ''missing.FCStd''
   \<and> fs (snd (main (example_env host_ok)
         (example_cmdline ''missing.FCStd'' (Some ''renders/front/shot.png'') False)
         (initial_state example_fs))) = example_fs"
  using output_dir_created_first
    [where s = "initial_state example_fs"
       and c = "example_cmdline ''model.FCStd'' (Some ''renders/front/shot.png'') False"
       and E = "example_env host_ok"]
    output_dir_created_first
    [where s = "initial_state example_fs"
       and c = "example_cmdline ''missing.FCStd'' (Some ''renders/front/shot.png'') False"
       and E = "example_env host_ok"]
  by (simp add: run_defs path_defs)

text \<open>
  C10. When the resolved output path is a bare file name, its dirname is the empty
  string, the directory step does nothing and raises nothing, \<^verbatim>\<open>os.makedirs\<close> is never
  called in the run, and processing continues: if the input file exists, the next event
  after the extension check is the import of the host bindings. Any save-image call of
  the run is given the bare name as it is, so the image is written relative to the
  current directory.
\<close>

theorem bare_output_skips_makedirs:
  assumes "sep \<notin> set (output_path (parse_arguments c))"
  shows "dirname (output_path (parse_arguments c)) = []
       \<and> create_output_dir E (parse_arguments c) s1 = (None, s1)
       \<and> (\<forall>ent \<in> set (drop (length (events s)) (events (snd (main E c s)))).
             (\<forall>d. fst ent \<noteq> Makedirs d) \<and>
             (\<forall>p w h bg out err. fst ent = Host (SaveImage p w h bg) out err
                \<longrightarrow> p = output_path (parse_arguments c)))
       \<and> (path_exists (fs s) (arg_input_file c) \<longrightarrow>
             (\<exists>rest. drop (length (events (check_extension (parse_arguments c) s)))
                        (events (snd (main E c s))) =
                (Host Import_FreeCAD (out_text (host E Import_FreeCAD (fs s)))
                   (err_text (host E Import_FreeCAD (fs s))), sys_stdout s, sys_stderr s) # rest))"
proof -
  let ?a = "parse_arguments c"
  have d: "dirname (output_path ?a) = []"
    using assms by (rule dirname_bare)
  then have skip: "\<And>s1. create_output_dir E ?a s1 = (None, s1)"
    by (simp add: create_output_dir_def)
  have entries: "\<forall>ent \<in> set (drop (length (events s)) (events (snd (main E c s)))).
             (\<forall>d. fst ent \<noteq> Makedirs d) \<and>
             (\<forall>p w h bg out err. fst ent = Host (SaveImage p w h bg) out err
                \<longrightarrow> p = output_path ?a)"
  proof
    fix ent
    assume ent: "ent \<in> set (drop (length (events s)) (events (snd (main E c s))))"
    obtain X where X: "events (snd (main E c s)) = events s @ X"
      and ok: "list_all (entry_ok ?a (sys_stdout s) (sys_stderr s)) X"
      using main_grows [of c s E] by (auto simp: grows_def)
    from ent X ok have "script_event ?a (fst ent)"
      by (simp add: list_all_iff entry_ok_def)
    with d show "(\<forall>d. fst ent \<noteq> Makedirs d) \<and>
             (\<forall>p w h bg out err. fst ent = Host (SaveImage p w h bg) out err
                \<longrightarrow> p = output_path ?a)"
      by (cases "fst ent") auto
  qed
  have cont: "path_exists (fs s) (arg_input_file c) \<longrightarrow>
             (\<exists>rest. drop (length (events (check_extension ?a s)))
                        (events (snd (main E c s))) =
                (Host Import_FreeCAD (out_text (host E Import_FreeCAD (fs s)))
                   (err_text (host E Import_FreeCAD (fs s))), sys_stdout s, sys_stderr s) # rest)"
  proof
    assume ex: "path_exists (fs s) (arg_input_file c)"
    from main_after_dir [OF ex skip [of "check_extension ?a s"]]
    show "\<exists>rest. drop (length (events (check_extension ?a s)))
                        (events (snd (main E c s))) =
                (Host Import_FreeCAD (out_text (host E Import_FreeCAD (fs s)))
                   (err_text (host E Import_FreeCAD (fs s))), sys_stdout s, sys_stderr s) # rest"
      by auto
  qed
  from d skip [of s1] entries cont show ?thesis
    by blast
qed

theorem bare_output_skips_makedirs_witness:
  "sep \<notin> set (output_path (parse_arguments
         (example_cmdline ''model.FCStd'' (Some ''shot.png'') False)))
   \<and> dirname ''shot.png'' = []
   \<and> events (snd (main (example_env host_ok)
         (example_cmdline ''model.FCStd'' (Some ''shot.png'') False)
         (initial_state example_fs))) =
        [(Host Import_FreeCAD ''message'' ''warning'', Real_stdout, Real_stderr),
         (Host Import_FreeCADGui ''message'' ''warning'', Real_stdout, Real_stderr),
         (Host ShowMainWindow ''message'' ''warning'', Real_stdout, Real_stderr),
         (Host (OpenDocument ''model.FCStd'') ''message'' ''warning'', Real_stdout, Real_stderr),
         (Host ActiveView ''message'' ''warning'', Real_stdout, Real_stderr),
         (Host FitAll ''message'' ''warning'', Real_stdout, Real_stderr),
         (Host (SaveImage ''shot.png'' 1080 1080 ''Transparent'') ''message'' ''warning'',
          Real_stdout, Real_stderr),
         (Print Real_stdout (''Successfully saved screenshot to: shot.png'' @ [CHR 0x0A]),
          Real_stdout, Real_stderr)]"
  using bare_output_skips_makedirs
    [of "example_cmdline ''model.FCStd'' (Some ''shot.png'') False"
      "example_env host_ok" "initial_state example_fs" "initial_state example_fs"]
  by (simp add: run_defs path_defs)

end
